theory Spec2Isabelle
  imports Main
begin

section \<open>Script values and the script engine\<close>

text \<open>
  The loader of \<^verbatim>\<open>src/item/itemloaderscript.cpp\<close> drives a QtScript engine. The
  engine is a library outside the repository, so only the operations the loader calls
  are modelled, with the behaviour the Qt documentation gives them.

  A \<open>QScriptValue\<close> is invalid (default constructed, or the result of reading a
  member that does not exist), undefined, null, a string, an object with named
  members, or a function. Functions are objects (\<open>isObject\<close> holds for them). An
  object and a function carry the text their string conversion yields. A function
  refers to its body by an index into the engine's table of bodies; a body takes the
  \<open>this\<close> object and the arguments and either returns a value or throws one.
  One \<open>char\<close> stands for one \<open>QChar\<close>.
\<close>

datatype QScriptValue =
    Invalid
  | Undefined
  | Null
  | Str string
  | Object string "(string \<times> QScriptValue) list"
  | Function string nat

datatype completion = Return QScriptValue | Throw QScriptValue

record QScriptEngine =
  globalObject :: QScriptValue
  body :: "nat \<Rightarrow> QScriptValue \<Rightarrow> QScriptValue list \<Rightarrow> completion"
  uncaught :: "QScriptValue option"

fun isValid :: "QScriptValue \<Rightarrow> bool" where
  "isValid Invalid = False"
| "isValid _ = True"

fun isUndefined :: "QScriptValue \<Rightarrow> bool" where
  "isUndefined Undefined = True"
| "isUndefined _ = False"

fun isNull :: "QScriptValue \<Rightarrow> bool" where
  "isNull Null = True"
| "isNull _ = False"

fun isFunction :: "QScriptValue \<Rightarrow> bool" where
  "isFunction (Function t k) = True"
| "isFunction _ = False"

fun isObject :: "QScriptValue \<Rightarrow> bool" where
  "isObject (Object t ms) = True"
| "isObject (Function t k) = True"
| "isObject _ = False"

text \<open>
  \<open>QScriptValue::property\<close>: the member of that name, and an invalid value when
  there is none or when the value has no members.
\<close>

fun property :: "QScriptValue \<Rightarrow> string \<Rightarrow> QScriptValue" where
  "property (Object t ms) name = (case map_of ms name of Some v \<Rightarrow> v | None \<Rightarrow> Invalid)"
| "property _ name = Invalid"

text \<open>
  \<open>QScriptValue::toString\<close>. The result is a \<open>QString\<close>, which can be null:
  \<open>None\<close> is the null string, \<open>Some []\<close> the empty string that is not null. An
  invalid value converts to the null string, every valid value to a string that is
  not null; a string value converts to itself, also when it is empty.
\<close>

fun toString :: "QScriptValue \<Rightarrow> string option" where
  "toString Invalid = None"
| "toString Undefined = Some ''undefined''"
| "toString Null = Some ''null''"
| "toString (Str s) = Some s"
| "toString (Object t ms) = Some t"
| "toString (Function t k) = Some t"

text \<open>
  \<open>QScriptValue::call\<close>: a value that is not a function gives an invalid value and
  does nothing. A function runs with \<open>thisObject\<close>, or with the global object when
  \<open>thisObject\<close> is not an object. When the body throws, the engine keeps the thrown
  value as its uncaught exception and \<open>call\<close> returns the thrown value; when it
  returns, an exception that was pending before the call stays pending.
\<close>

definition call :: "QScriptValue \<Rightarrow> QScriptValue \<Rightarrow> QScriptValue list \<Rightarrow> QScriptEngine
    \<Rightarrow> QScriptValue \<times> QScriptEngine" where
  "call fn thisObject args eng =
     (case fn of
        Function t k \<Rightarrow>
          (case body eng k (if isObject thisObject then thisObject else globalObject eng) args of
             Return v \<Rightarrow> (v, eng)
           | Throw e \<Rightarrow> (e, eng\<lparr>uncaught := Some e\<rparr>))
      | _ \<Rightarrow> (Invalid, eng))"

definition hasUncaughtException :: "QScriptEngine \<Rightarrow> bool" where
  "hasUncaughtException eng = (uncaught eng \<noteq> None)"

definition uncaughtException :: "QScriptEngine \<Rightarrow> QScriptValue" where
  "uncaughtException eng = (case uncaught eng of Some e \<Rightarrow> e | None \<Rightarrow> Invalid)"

definition clearExceptions :: "QScriptEngine \<Rightarrow> QScriptEngine" where
  "clearExceptions eng = eng\<lparr>uncaught := None\<rparr>"

section \<open>Strings, file names and the host log\<close>

text \<open>
  \<open>QFileInfo::baseName\<close>: the file name without the path, up to the first dot.
\<close>

definition fileName :: "string \<Rightarrow> string" where
  "fileName path = rev (takeWhile (\<lambda>c. c \<noteq> CHR ''/'') (rev path))"

definition baseName :: "string \<Rightarrow> string" where
  "baseName path = takeWhile (\<lambda>c. c \<noteq> CHR ''.'') (fileName path)"

text \<open>
  \<open>QString::replace(QRegExp("[^a-zA-Z0-9_]"), "_")\<close>: every character outside the
  class becomes an underscore.
\<close>

definition inClass :: "char \<Rightarrow> bool" where
  "inClass c =
     (c \<in> set ''abcdefghijklmnopqrstuvwxyzABCDEFGHIJKLMNOPQRSTUVWXYZ0123456789_'')"

definition replaceRegExp :: "string \<Rightarrow> string" where
  "replaceRegExp s = map (\<lambda>c. if inClass c then c else CHR ''_'') s"

text \<open>
  \<open>QString::replace(before, after)\<close> for the one-character pattern the loader uses,
  the line feed: every occurrence is replaced by \<open>after\<close>.
\<close>

definition replace :: "string \<Rightarrow> char \<Rightarrow> string \<Rightarrow> string" where
  "replace text before after = concat (map (\<lambda>c. if c = before then after else [c]) text)"

text \<open>
  Modelled from the spec: the log levels are declared in \<^verbatim>\<open>common/log.h\<close>, which
  is not among the sources. Section 4.5 of the specification names the severities
  note, warning and error, and these are the levels the loader uses. The host log
  \<open>::log(text, level)\<close> is the list of the events handed to it, oldest first.
\<close>

datatype LogLevel = LogError | LogWarning | LogNote

type_synonym LogEvent = "string \<times> LogLevel"

text \<open>
  A \<open>QVariantMap\<close> of item data, MIME type to payload. The marshalling between item
  data and script values, and the evaluation of a script, belong to the class
  \<open>Scriptable\<close>, which is not among the sources: they are parameters, the fields of
  this record. \<open>eval\<close> is any transformer of the engine.
\<close>

type_synonym QVariantMap = "(string \<times> string) list"

record Scriptable =
  eval :: "string \<Rightarrow> string \<Rightarrow> QScriptEngine \<Rightarrow> QScriptValue \<times> QScriptEngine"
  fromDataMap :: "QVariantMap \<Rightarrow> QScriptValue"
  toDataMap :: "QScriptValue \<Rightarrow> QVariantMap"

text \<open>
  What a call of the loader or of a saver can change: the engine \<open>m_engine\<close>, which
  the \<open>const\<close> methods reach through a pointer, and the host log.
\<close>

record runtime =
  engine :: QScriptEngine
  hostLog :: "LogEvent list"

section \<open>ItemSaverScript\<close>

text \<open>
  An \<open>ItemSaverPtr\<close> points to a built-in saver, given by its \<open>copyItem\<close> and its
  \<open>transformItemData\<close> as functions of the model and the item data, or to an
  \<open>ItemSaverScript\<close> with its members \<open>m_saver\<close>, \<open>m_obj\<close> and \<open>m_scriptable\<close>.
  The savers of one chain run on one engine.
\<close>

datatype 'm ItemSaver =
    BuiltinSaver "'m \<Rightarrow> QVariantMap \<Rightarrow> QVariantMap" "'m \<Rightarrow> QVariantMap \<Rightarrow> QVariantMap"
  | ItemSaverScript "'m ItemSaver" QScriptValue Scriptable

text \<open>The private \<open>transformItemData(fnName, itemData)\<close>.\<close>

definition transformItemData_fn :: "QScriptValue \<Rightarrow> Scriptable \<Rightarrow> string \<Rightarrow> QVariantMap
    \<Rightarrow> runtime \<Rightarrow> QVariantMap \<times> runtime" where
  "transformItemData_fn m_obj m_scriptable fnName itemData w =
     (let fn = property m_obj fnName in
      if \<not> isFunction fn then (itemData, w)
      else
        let args = [fromDataMap m_scriptable itemData];
            (result, eng) = call fn m_obj args (engine w);
            w1 = w\<lparr>engine := eng\<rparr>
        in if isUndefined result \<or> isNull result then (itemData, w1)
           else (toDataMap m_scriptable result, w1))"

fun copyItem :: "'m ItemSaver \<Rightarrow> 'm \<Rightarrow> QVariantMap \<Rightarrow> runtime \<Rightarrow> QVariantMap \<times> runtime" where
  "copyItem (BuiltinSaver c t) model itemData w = (c model itemData, w)"
| "copyItem (ItemSaverScript m_saver m_obj m_scriptable) model itemData w =
     (let (itemData2, w1) = copyItem m_saver model itemData w
      in transformItemData_fn m_obj m_scriptable ''copyItem'' itemData2 w1)"

fun transformItemData :: "'m ItemSaver \<Rightarrow> 'm \<Rightarrow> QVariantMap \<Rightarrow> runtime
    \<Rightarrow> QVariantMap \<times> runtime" where
  "transformItemData (BuiltinSaver c t) model itemData w = (t model itemData, w)"
| "transformItemData (ItemSaverScript m_saver m_obj m_scriptable) model itemData w =
     (let (itemData1, w1) = transformItemData m_saver model itemData w
      in transformItemData_fn m_obj m_scriptable ''transformItemData'' itemData1 w1)"

section \<open>ItemLoaderScript\<close>

text \<open>
  The members of the loader other than the engine. They are set by the constructor
  and no method assigns them.
\<close>

record ItemLoaderScript =
  m_scriptable :: Scriptable
  m_obj :: QScriptValue
  m_baseName :: string
  m_script :: string
  m_id :: string

text \<open>
  \<open>log(text, level)\<close>: the first three statements build the text, the last hands
  it to the host log. \<open>logText\<close> is the text they build.
\<close>

definition logText :: "string \<Rightarrow> string \<Rightarrow> string" where
  "logText ident text =
     (let label = ''scripts::'' @ ident @ '': '';
          text1 = label @ text
      in replace text1 (CHR 0x0A) label)"

definition log :: "ItemLoaderScript \<Rightarrow> string \<Rightarrow> LogLevel \<Rightarrow> runtime \<Rightarrow> runtime" where
  "log L text level w = w\<lparr>hostLog := hostLog w @ [(logText (m_id L) text, level)]\<rparr>"

text \<open>The characters of a \<open>QString\<close>; the null string has none.\<close>

fun chars :: "string option \<Rightarrow> string" where
  "chars None = []"
| "chars (Some s) = s"

definition processUncaughtException :: "ItemLoaderScript \<Rightarrow> runtime \<Rightarrow> bool \<times> runtime" where
  "processUncaughtException L w =
     (if \<not> hasUncaughtException (engine w) then (False, w)
      else
        let w1 = log L (chars (toString (uncaughtException (engine w)))) LogWarning w
        in (True, w1\<lparr>engine := clearExceptions (engine w1)\<rparr>))"

text \<open>
  The private \<open>value(variableName)\<close>, here \<open>value_of\<close>, and \<open>id()\<close>, here
  \<open>id_loader\<close>: the source's names are taken in Isabelle/HOL.
\<close>

definition value_of :: "ItemLoaderScript \<Rightarrow> string \<Rightarrow> runtime \<Rightarrow> QScriptValue \<times> runtime" where
  "value_of L variableName w =
     (let v0 = property (m_obj L) variableName;
          (v, eng) = (if isFunction v0 then call v0 (m_obj L) [] (engine w) else (v0, engine w));
          (raised, w1) = processUncaughtException L (w\<lparr>engine := eng\<rparr>)
      in if raised then (Invalid, w1) else (v, w1))"

definition stringValue :: "ItemLoaderScript \<Rightarrow> string \<Rightarrow> string option \<Rightarrow> runtime
    \<Rightarrow> string option \<times> runtime" where
  "stringValue L variableName defaultValue w =
     (let (v, w1) = value_of L variableName w
      in if isValid v
         then (case toString v of Some text \<Rightarrow> (Some text, w1) | None \<Rightarrow> (defaultValue, w1))
         else (defaultValue, w1))"

definition name :: "ItemLoaderScript \<Rightarrow> runtime \<Rightarrow> string option \<times> runtime" where
  "name L w = stringValue L ''name'' (Some (m_baseName L)) w"

definition id_loader :: "ItemLoaderScript \<Rightarrow> string" where
  "id_loader L = m_id L"

definition isLoaded :: "ItemLoaderScript \<Rightarrow> bool" where
  "isLoaded L = isObject (m_obj L)"

definition transformSaver :: "ItemLoaderScript \<Rightarrow> 'm ItemSaver \<Rightarrow> 'm ItemSaver" where
  "transformSaver L saver =
     (if isFunction (property (m_obj L) ''copyItem'')
         \<or> isFunction (property (m_obj L) ''transformItemData'')
      then ItemSaverScript saver (m_obj L) (m_scriptable L)
      else saver)"

text \<open>
  The slot \<open>sendMessage(message, messageCode)\<close>. The command codes are declared in
  \<^verbatim>\<open>common/commandstatus.h\<close>, which is not among the sources: they are parameters,
  as is \<open>QString::fromUtf8\<close>.
\<close>

record CommandStatus =
  CommandError :: int
  CommandBadSyntax :: int
  CommandException :: int

definition sendMessage :: "CommandStatus \<Rightarrow> (string \<Rightarrow> string) \<Rightarrow> ItemLoaderScript \<Rightarrow> string \<Rightarrow> int
    \<Rightarrow> runtime \<Rightarrow> runtime" where
  "sendMessage cs fromUtf8 L message messageCode w =
     (if message \<noteq> [] then
        let text = fromUtf8 message
        in if messageCode = CommandError cs \<or> messageCode = CommandBadSyntax cs
              \<or> messageCode = CommandException cs
           then log L text LogWarning w
           else log L text LogNote w
      else w)"

text \<open>
  The constructor. The script file either fails to open, with an error string, or
  has contents; \<open>readAll\<close> on a file that is not open gives the empty text.

  The member initialisers run in the order of the declarations, \<open>m_baseName\<close> before
  \<open>m_id\<close>. \<open>QString::replace\<close> changes the string it is called on and returns a
  reference to it, so the initialiser of \<open>m_id\<close> rewrites \<open>m_baseName\<close> as well.
  The factory is called as \<open>m_obj.call()\<close>, with an invalid \<open>this\<close> and no argument.
\<close>

datatype QFile = OpenFailed string | Contents string

definition scriptFunctionName :: string where
  "scriptFunctionName = ''copyq_script''"

definition ItemLoaderScript_new :: "Scriptable \<Rightarrow> QFile \<Rightarrow> string \<Rightarrow> runtime
    \<Rightarrow> ItemLoaderScript \<times> runtime" where
  "ItemLoaderScript_new scriptable scriptFile scriptFilePath w =
     (let baseName0 = baseName scriptFilePath;
          baseName1 = replaceRegExp baseName0;
          L0 = \<lparr>m_scriptable = scriptable, m_obj = Invalid, m_baseName = baseName1,
                m_script = [], m_id = baseName1\<rparr>;
          w1 = (case scriptFile of
                  OpenFailed errorString \<Rightarrow>
                    log L0 (''Failed to open '' @ [CHR 0x22] @ scriptFilePath @ [CHR 0x22]
                            @ '': '' @ errorString) LogError w
                | Contents text \<Rightarrow> w);
          script = (case scriptFile of OpenFailed errorString \<Rightarrow> [] | Contents text \<Rightarrow> text);
          L1 = L0\<lparr>m_script := script\<rparr>
      in if script \<noteq> [] then
           let (r, eng1) = eval scriptable script scriptFilePath (engine w1);
               obj1 = property (globalObject eng1) scriptFunctionName;
               (obj2, eng2) = (if isFunction obj1 then call obj1 Invalid [] eng1 else (obj1, eng1));
               L2 = L1\<lparr>m_obj := obj2\<rparr>;
               (raised, w2) = processUncaughtException L2 (w1\<lparr>engine := eng2\<rparr>)
           in if raised then (L2\<lparr>m_obj := Invalid\<rparr>, w2) else (L2, w2)
         else (L1, w1))"

definition createItemLoaderScript :: "Scriptable \<Rightarrow> QFile \<Rightarrow> string \<Rightarrow> runtime
    \<Rightarrow> ItemLoaderScript option \<times> runtime" where
  "createItemLoaderScript scriptable scriptFile scriptFilePath w =
     (let (loader, w1) = ItemLoaderScript_new scriptable scriptFile scriptFilePath w
      in if isLoaded loader then (Some loader, w1) else (None, w1))"

section \<open>Concrete scripts\<close>

text \<open>
  Modelled from the spec: \<open>Scriptable::fromDataMap\<close> and \<open>Scriptable::toDataMap\<close>
  are not among the sources. Section 6 of the specification describes the marshalling
  as total and lossless for text payloads keyed by MIME-like strings: item data becomes
  an object with one string member for each key, and reading a value back collects
  its string members; a value that is not an object has none. The general theorems
  below hold for every marshalling; this one serves the concrete runs.
\<close>

definition fromDataMap_text :: "QVariantMap \<Rightarrow> QScriptValue" where
  "fromDataMap_text d = Object ''[object Object]'' (map (\<lambda>(k, v). (k, Str v)) d)"

fun textMembers :: "(string \<times> QScriptValue) list \<Rightarrow> QVariantMap" where
  "textMembers [] = []"
| "textMembers ((k, Str s) # ms) = (k, s) # textMembers ms"
| "textMembers (m # ms) = textMembers ms"

fun toDataMap_text :: "QScriptValue \<Rightarrow> QVariantMap" where
  "toDataMap_text (Object t ms) = textMembers ms"
| "toDataMap_text v = []"

text \<open>
  A fresh engine and an empty host log; a script whose evaluation defines the factory
  \<open>copyq_script\<close> as function 0, which returns \<open>handler\<close>, the other functions
  being \<open>bodies\<close>; and the loader constructed from such a script file.
\<close>

definition startRuntime :: runtime where
  "startRuntime =
     \<lparr>engine = \<lparr>globalObject = Object ''[object global]'' [],
                 body = (\<lambda>k this args. Return Undefined), uncaught = None\<rparr>,
      hostLog = []\<rparr>"

definition pluginScriptable :: "QScriptValue
    \<Rightarrow> (nat \<Rightarrow> QScriptValue \<Rightarrow> QScriptValue list \<Rightarrow> completion) \<Rightarrow> Scriptable" where
  "pluginScriptable handler bodies =
     \<lparr>eval = (\<lambda>script fileName eng.
        (Undefined,
         \<lparr>globalObject = Object ''[object global]''
                           [(''copyq_script'', Function ''function copyq_script'' 0)],
          body = (\<lambda>k. if k = 0 then (\<lambda>this args. Return handler) else bodies k),
          uncaught = None\<rparr>)),
      fromDataMap = fromDataMap_text, toDataMap = toDataMap_text\<rparr>"

definition loadPlugin :: "QScriptValue
    \<Rightarrow> (nat \<Rightarrow> QScriptValue \<Rightarrow> QScriptValue list \<Rightarrow> completion) \<Rightarrow> string
    \<Rightarrow> ItemLoaderScript \<times> runtime" where
  "loadPlugin handler bodies path =
     ItemLoaderScript_new (pluginScriptable handler bodies) (Contents ''script'') path startRuntime"

text \<open>A built-in saver that copies and transforms item data unchanged.\<close>

definition identitySaver :: "unit ItemSaver" where
  "identitySaver = BuiltinSaver (\<lambda>model itemData. itemData) (\<lambda>model itemData. itemData)"

text \<open>
  A handler object with a constant \<open>name\<close>, an \<open>author\<close> that is computed, a
  \<open>description\<close> that throws, a \<open>copyItem\<close> that returns undefined and a
  \<open>transformItemData\<close> that returns new item data.
\<close>

definition sampleHandler :: QScriptValue where
  "sampleHandler = Object ''[object Object]''
     [(''name'', Str ''X''),
      (''author'', Function ''function author'' 1),
      (''description'', Function ''function description'' 2),
      (''copyItem'', Function ''function copyItem'' 3),
      (''transformItemData'', Function ''function transformItemData'' 4)]"

definition sampleBodies :: "nat \<Rightarrow> QScriptValue \<Rightarrow> QScriptValue list \<Rightarrow> completion" where
  "sampleBodies k this args =
     (if k = 1 then Return (Str ''A. Author'')
      else if k = 2 then Throw (Str ''boom'')
      else if k = 3 then Return Undefined
      else if k = 4 then Return (Object ''[object Object]'' [(''text/plain'', Str ''changed'')])
      else Return Undefined)"

text \<open>A handler object whose \<open>transformItemData\<close> throws the string \<open>boom\<close>.\<close>

definition throwingHandler :: QScriptValue where
  "throwingHandler = Object ''[object Object]''
     [(''transformItemData'', Function ''function transformItemData'' 1)]"

definition throwingBodies :: "nat \<Rightarrow> QScriptValue \<Rightarrow> QScriptValue list \<Rightarrow> completion" where
  "throwingBodies k this args = Throw (Str ''boom'')"

text \<open>A handler object whose \<open>name\<close> is the empty string, and one without members.\<close>

definition emptyNameHandler :: QScriptValue where
  "emptyNameHandler = Object ''[object Object]'' [(''name'', Str [])]"

definition plainHandler :: QScriptValue where
  "plainHandler = Object ''[object Object]'' []"

definition noBodies :: "nat \<Rightarrow> QScriptValue \<Rightarrow> QScriptValue list \<Rightarrow> completion" where
  "noBodies k this args = Return Undefined"

text \<open>
  A script that defines no \<open>copyq_script\<close> and whose evaluation results in an object,
  and a script whose evaluation throws.
\<close>

definition objectResultScriptable :: Scriptable where
  "objectResultScriptable =
     \<lparr>eval = (\<lambda>script fileName eng.
        (Object ''[object Object]'' [(''name'', Str ''X'')], eng\<lparr>uncaught := None\<rparr>)),
      fromDataMap = fromDataMap_text, toDataMap = toDataMap_text\<rparr>"

definition failingScriptable :: Scriptable where
  "failingScriptable =
     \<lparr>eval = (\<lambda>script fileName eng.
        (Str ''SyntaxError'', eng\<lparr>uncaught := Some (Str ''SyntaxError'')\<rparr>)),
      fromDataMap = fromDataMap_text, toDataMap = toDataMap_text\<rparr>"

text \<open>A handler object whose \<open>copyItem\<close> is function 4, which returns new item data.\<close>

definition replacingHandler :: QScriptValue where
  "replacingHandler = Object ''[object Object]'' [(''copyItem'', Function ''function copyItem'' 4)]"


section \<open>Auxiliary facts\<close>

lemma property_Function_isObject: "property obj n = Function t k \<Longrightarrow> isObject obj"
  by (cases obj) auto

lemma engine_log [simp]: "engine (log L text level w) = engine w"
  by (simp add: log_def)

lemma hostLog_log [simp]:
  "hostLog (log L text level w) = hostLog w @ [(logText (m_id L) text, level)]"
  by (simp add: log_def)

lemma uncaught_None_update: "uncaught eng = None \<Longrightarrow> eng\<lparr>uncaught := None\<rparr> = eng"
  by (cases eng) simp

lemma processUncaughtException_None:
  "uncaught (engine w) = None \<Longrightarrow> processUncaughtException L w = (False, w)"
  by (simp add: processUncaughtException_def hasUncaughtException_def)

lemma processUncaughtException_Some:
  "uncaught (engine w) = Some e \<Longrightarrow>
   processUncaughtException L w =
     (True, w\<lparr>engine := (engine w)\<lparr>uncaught := None\<rparr>,
              hostLog := hostLog w @ [(logText (m_id L) (chars (toString e)), LogWarning)]\<rparr>)"
  by (simp add: processUncaughtException_def hasUncaughtException_def Let_def log_def
      uncaughtException_def clearExceptions_def)

lemma loadPlugin_eq:
  "loadPlugin handler bodies path =
     (\<lparr>m_scriptable = pluginScriptable handler bodies, m_obj = handler,
       m_baseName = replaceRegExp (baseName path), m_script = ''script'',
       m_id = replaceRegExp (baseName path)\<rparr>,
      \<lparr>engine = \<lparr>globalObject = Object ''[object global]''
                           [(''copyq_script'', Function ''function copyq_script'' 0)],
          body = (\<lambda>k. if k = 0 then (\<lambda>this args. Return handler) else bodies k),
          uncaught = None\<rparr>, hostLog = []\<rparr>)"
  by (simp add: loadPlugin_def ItemLoaderScript_new_def pluginScriptable_def startRuntime_def
      scriptFunctionName_def call_def processUncaughtException_None Let_def)

lemma baseName_plugin_js: "baseName ''plugin.js'' = ''plugin''"
  by (simp add: baseName_def fileName_def)

lemma replaceRegExp_plugin: "replaceRegExp ''plugin'' = ''plugin''"
  by (simp add: replaceRegExp_def inClass_def)

lemma isFunction_isObject: "isFunction v \<Longrightarrow> isObject v"
  by (cases v) simp_all

lemma ItemSaverScript_neq: "ItemSaverScript s obj scr \<noteq> s"
  by (induction s) auto

lemma replaceRegExp_inClass: "\<forall>c \<in> set s. inClass c \<Longrightarrow> replaceRegExp s = s"
  by (induction s) (simp_all add: replaceRegExp_def)

lemma replaceRegExp_my_plugin: "replaceRegExp (baseName ''my plugin!.js'') = ''my_plugin_''"
  by (simp add: replaceRegExp_def baseName_def fileName_def inClass_def)


subsection \<open>The text of a log event\<close>

text \<open>
  An identity has no line feed, so the text that \<open>log\<close> hands over is the prefix
  followed by the given text with every line feed replaced by the prefix; it has no
  line feed left.
\<close>

lemma replace_append: "replace (a @ b) c r = replace a c r @ replace b c r"
  by (simp add: replace_def)

lemma replace_absent: "c \<notin> set a \<Longrightarrow> replace a c r = a"
  by (induction a) (auto simp add: replace_def)

lemma line_feed_not_in_replaceRegExp: "CHR 0x0A \<notin> set (replaceRegExp s)"
  by (induction s) (simp_all add: replaceRegExp_def inClass_def)

lemma logText_of_id:
  "logText (replaceRegExp s) text =
     (''scripts::'' @ replaceRegExp s @ '': '')
     @ replace text (CHR 0x0A) (''scripts::'' @ replaceRegExp s @ '': '')"
proof -
  have "CHR 0x0A \<notin> set (''scripts::'' @ replaceRegExp s @ '': '')"
    using line_feed_not_in_replaceRegExp [of s] by simp
  then have "replace (''scripts::'' @ replaceRegExp s @ '': '') (CHR 0x0A)
          (''scripts::'' @ replaceRegExp s @ '': '') = ''scripts::'' @ replaceRegExp s @ '': ''"
    by (rule replace_absent)
  then show ?thesis
    unfolding logText_def Let_def
    using replace_append [of "''scripts::'' @ replaceRegExp s @ '': ''" "text" "CHR 0x0A"
            "''scripts::'' @ replaceRegExp s @ '': ''"]
    by simp
qed

lemma replace_no_line_feed: "c \<notin> set r \<Longrightarrow> c \<notin> set (replace a c r)"
  by (induction a) (simp_all add: replace_def)

lemma logText_single_line: "CHR 0x0A \<notin> set (logText (replaceRegExp s) text)"
proof -
  have "CHR 0x0A \<notin> set (''scripts::'' @ replaceRegExp s @ '': '')"
    using line_feed_not_in_replaceRegExp [of s] by simp
  then show ?thesis
    unfolding logText_def Let_def by (rule replace_no_line_feed)
qed

subsection \<open>The script hook of a saver\<close>

lemma transformItemData_fn_Return:
  assumes "property obj fnName = Function t k"
    and "body (engine w) k obj [fromDataMap s d] = Return v"
  shows "transformItemData_fn obj s fnName d w =
           (if isUndefined v \<or> isNull v then d else toDataMap s v, w)"
  using assms property_Function_isObject [OF assms(1)]
  by (simp add: transformItemData_fn_def call_def)

text \<open>
  A hook that throws: \<open>call\<close> returns the thrown value, which replaces the item data
  unless it is undefined or null; the exception stays pending in the engine and the
  host log is not written.
\<close>

lemma transformItemData_fn_Throw:
  assumes "property obj fnName = Function t k"
    and "body (engine w) k obj [fromDataMap s d] = Throw e"
  shows "transformItemData_fn obj s fnName d w =
           (if isUndefined e \<or> isNull e then d else toDataMap s e,
            w\<lparr>engine := (engine w)\<lparr>uncaught := Some e\<rparr>\<rparr>)"
  using assms property_Function_isObject [OF assms(1)]
  by (simp add: transformItemData_fn_def call_def)

subsection \<open>Resolving a member of the handler object\<close>

lemma value_of_call_Return:
  assumes "property (m_obj L) n = Function t k"
    and "body (engine w) k (m_obj L) [] = Return v"
  shows "value_of L n w = (case uncaught (engine w) of
            None \<Rightarrow> (v, w)
          | Some e \<Rightarrow> (Invalid, w\<lparr>engine := (engine w)\<lparr>uncaught := None\<rparr>,
              hostLog := hostLog w @ [(logText (m_id L) (chars (toString e)), LogWarning)]\<rparr>))"
  using assms property_Function_isObject [OF assms(1)]
  by (cases "uncaught (engine w)")
     (simp_all add: value_of_def call_def processUncaughtException_None
        processUncaughtException_Some)

lemma value_of_call_Throw:
  assumes "property (m_obj L) n = Function t k"
    and "body (engine w) k (m_obj L) [] = Throw e"
  shows "value_of L n w = (Invalid, w\<lparr>engine := (engine w)\<lparr>uncaught := None\<rparr>,
              hostLog := hostLog w @ [(logText (m_id L) (chars (toString e)), LogWarning)]\<rparr>)"
  using assms property_Function_isObject [OF assms(1)]
  by (simp add: value_of_def call_def processUncaughtException_Some)

lemma value_of_plain:
  assumes "\<not> isFunction (property (m_obj L) n)"
  shows "value_of L n w = (case uncaught (engine w) of
            None \<Rightarrow> (property (m_obj L) n, w)
          | Some e \<Rightarrow> (Invalid, w\<lparr>engine := (engine w)\<lparr>uncaught := None\<rparr>,
              hostLog := hostLog w @ [(logText (m_id L) (chars (toString e)), LogWarning)]\<rparr>))"
  using assms
  by (cases "uncaught (engine w)")
     (simp_all add: value_of_def processUncaughtException_None processUncaughtException_Some)




subsection \<open>The constructor, case by case\<close>

lemma new_m_id:
  "m_id (fst (ItemLoaderScript_new scr file path w)) = replaceRegExp (baseName path)"
  by (simp add: ItemLoaderScript_new_def Let_def split: prod.splits)

lemma new_m_baseName:
  "m_baseName (fst (ItemLoaderScript_new scr file path w)) = replaceRegExp (baseName path)"
  by (simp add: ItemLoaderScript_new_def Let_def split: prod.splits)

lemma new_OpenFailed:
  "m_obj (fst (ItemLoaderScript_new scr (OpenFailed err) path w)) = Invalid"
  by (simp add: ItemLoaderScript_new_def Let_def)

lemma new_empty:
  "m_obj (fst (ItemLoaderScript_new scr (Contents []) path w)) = Invalid"
  by (simp add: ItemLoaderScript_new_def Let_def)

lemma new_pending:
  assumes "script \<noteq> []" and "eval scr script path (engine w) = (r, eng1)"
    and "uncaught (snd (if isFunction (property (globalObject eng1) scriptFunctionName)
            then call (property (globalObject eng1) scriptFunctionName) Invalid [] eng1
            else (property (globalObject eng1) scriptFunctionName, eng1))) \<noteq> None"
  shows "m_obj (fst (ItemLoaderScript_new scr (Contents script) path w)) = Invalid"
  using assms
  by (auto simp add: ItemLoaderScript_new_def Let_def processUncaughtException_def
      hasUncaughtException_def split: prod.splits)

lemma new_not_pending:
  assumes "script \<noteq> []" and "eval scr script path (engine w) = (r, eng1)"
    and "(if isFunction (property (globalObject eng1) scriptFunctionName)
            then call (property (globalObject eng1) scriptFunctionName) Invalid [] eng1
            else (property (globalObject eng1) scriptFunctionName, eng1)) = (obj2, eng2)"
    and "uncaught eng2 = None"
  shows "m_obj (fst (ItemLoaderScript_new scr (Contents script) path w)) = obj2"
  using assms
  by (auto simp add: ItemLoaderScript_new_def Let_def processUncaughtException_def
      hasUncaughtException_def split: prod.splits)

lemma new_cases:
  assumes "script \<noteq> []" and "eval scr script path (engine w) = (r, eng1)"
    and "(if isFunction (property (globalObject eng1) scriptFunctionName)
            then call (property (globalObject eng1) scriptFunctionName) Invalid [] eng1
            else (property (globalObject eng1) scriptFunctionName, eng1)) = (obj2, eng2)"
  shows "m_obj (fst (ItemLoaderScript_new scr (Contents script) path w))
           = (if uncaught eng2 = None then obj2 else Invalid)"
proof (cases "uncaught eng2 = None")
  case True
  with new_not_pending [OF assms(1,2,3)] show ?thesis by simp
next
  case False
  then have "uncaught (snd (if isFunction (property (globalObject eng1) scriptFunctionName)
            then call (property (globalObject eng1) scriptFunctionName) Invalid [] eng1
            else (property (globalObject eng1) scriptFunctionName, eng1))) \<noteq> None"
    using assms(3) by simp
  from new_pending [OF assms(1,2) this] False show ?thesis by auto
qed

section \<open>The claims\<close>

subsection \<open>C1: a hook that throws\<close>

text \<open>
  Claim C1 says that when the \<open>transformItemData\<close> (or \<open>copyItem\<close>) hook throws, the
  saver returns the inner saver's output unchanged and exactly one warning is logged.
  \<open>ItemSaverScript::transformItemData\<close> calls the hook and never asks the engine for
  an uncaught exception, as \<open>ItemLoaderScript::value\<close> does after its call. Run on
  the plugin whose \<open>transformItemData\<close> throws the string \<open>boom\<close>, around a saver that
  leaves the item data \<open>text/plain = hello\<close> unchanged: the saver returns the data
  made from the thrown value, which is empty, the exception stays pending in the
  engine, and the host log stays empty.
\<close>

theorem transformItemData_throwing_hook_run:
  "transformItemData
      (transformSaver (fst (loadPlugin throwingHandler throwingBodies ''plugin.js'')) identitySaver)
      () [(''text/plain'', ''hello'')]
      (snd (loadPlugin throwingHandler throwingBodies ''plugin.js''))
   = ([], (snd (loadPlugin throwingHandler throwingBodies ''plugin.js''))
          \<lparr>engine := (engine (snd (loadPlugin throwingHandler throwingBodies ''plugin.js'')))
             \<lparr>uncaught := Some (Str ''boom'')\<rparr>\<rparr>)
   \<and> hostLog (snd (loadPlugin throwingHandler throwingBodies ''plugin.js'')) = []"
  by (simp add: loadPlugin_eq transformSaver_def throwingHandler_def throwingBodies_def
      identitySaver_def transformItemData_fn_def call_def pluginScriptable_def)

subsection \<open>C2: the name of a plugin\<close>

text \<open>
  Claim C2, as amended: for a loader constructed from a script file whose base name
  has only characters of \<open>[A-Za-z0-9_]\<close>, and with no exception pending in the
  engine, \<open>name()\<close> returns the text of the handler object's \<open>name\<close> member when that
  is a string, constant or returned by the member called with no argument, also when
  the string is empty; it returns the file's base name when the member is absent or
  the call throws, and the call that throws logs one warning.
\<close>

theorem name_of_plugin:
  assumes "L = fst (ItemLoaderScript_new scr file path w0)"
    and "uncaught (engine w) = None"
    and "\<forall>c \<in> set (baseName path). inClass c"
  shows "(property (m_obj L) ''name'' = Str t \<longrightarrow> name L w = (Some t, w))
   \<and> (property (m_obj L) ''name'' = Function s k
        \<and> body (engine w) k (m_obj L) [] = Return (Str t)
      \<longrightarrow> name L w = (Some t, w))
   \<and> (property (m_obj L) ''name'' = Invalid \<longrightarrow> name L w = (Some (baseName path), w))
   \<and> (property (m_obj L) ''name'' = Function s k \<and> body (engine w) k (m_obj L) [] = Throw e
      \<longrightarrow> name L w =
            (Some (baseName path),
             w\<lparr>hostLog := hostLog w @ [(logText (m_id L) (chars (toString e)), LogWarning)]\<rparr>))"
proof -
  have base: "m_baseName L = baseName path"
    using assms(1,3) by (simp add: new_m_baseName replaceRegExp_inClass)
  have a: "property (m_obj L) ''name'' = Str t \<longrightarrow> name L w = (Some t, w)"
    using assms(2) by (simp add: name_def stringValue_def value_of_plain)
  have b: "property (m_obj L) ''name'' = Function s k
        \<and> body (engine w) k (m_obj L) [] = Return (Str t)
      \<longrightarrow> name L w = (Some t, w)"
    using assms(2) by (simp add: name_def stringValue_def value_of_call_Return)
  have c: "property (m_obj L) ''name'' = Invalid \<longrightarrow> name L w = (Some (baseName path), w)"
    using assms(2) base by (simp add: name_def stringValue_def value_of_plain)
  have d: "property (m_obj L) ''name'' = Function s k \<and> body (engine w) k (m_obj L) [] = Throw e
      \<longrightarrow> name L w =
            (Some (baseName path),
             w\<lparr>hostLog := hostLog w @ [(logText (m_id L) (chars (toString e)), LogWarning)]\<rparr>)"
    using assms(2) base
    by (simp add: name_def stringValue_def value_of_call_Throw uncaught_None_update)
  from a b c d show ?thesis by blast
qed

text \<open>
  The plugin of \<^verbatim>\<open>plugin.js\<close> with the constant name \<open>X\<close> is called \<open>X\<close>, and the
  plugin of \<^verbatim>\<open>plugin.js\<close> without a \<open>name\<close> is called \<open>plugin\<close>.
\<close>

theorem name_of_plugin_witness:
  "name (fst (loadPlugin sampleHandler sampleBodies ''plugin.js''))
        (snd (loadPlugin sampleHandler sampleBodies ''plugin.js''))
     = (Some ''X'', snd (loadPlugin sampleHandler sampleBodies ''plugin.js''))
   \<and> name (fst (loadPlugin plainHandler noBodies ''plugin.js''))
        (snd (loadPlugin plainHandler noBodies ''plugin.js''))
     = (Some ''plugin'', snd (loadPlugin plainHandler noBodies ''plugin.js''))"
proof -
  have cls: "\<forall>c \<in> set (baseName ''plugin.js''). inClass c"
    by (simp add: baseName_plugin_js inClass_def)
  have u1: "uncaught (engine (snd (loadPlugin sampleHandler sampleBodies ''plugin.js''))) = None"
    by (simp add: loadPlugin_eq)
  have u2: "uncaught (engine (snd (loadPlugin plainHandler noBodies ''plugin.js''))) = None"
    by (simp add: loadPlugin_eq)
  have p1: "property (m_obj (fst (loadPlugin sampleHandler sampleBodies ''plugin.js''))) ''name''
              = Str ''X''"
    by (simp add: loadPlugin_eq sampleHandler_def)
  have p2: "property (m_obj (fst (loadPlugin plainHandler noBodies ''plugin.js''))) ''name''
              = Invalid"
    by (simp add: loadPlugin_eq plainHandler_def)
  from name_of_plugin [OF loadPlugin_def [THEN arg_cong [where f = fst]] u1 cls] p1
  have first: "name (fst (loadPlugin sampleHandler sampleBodies ''plugin.js''))
        (snd (loadPlugin sampleHandler sampleBodies ''plugin.js''))
     = (Some ''X'', snd (loadPlugin sampleHandler sampleBodies ''plugin.js''))"
    by blast
  from name_of_plugin [OF loadPlugin_def [THEN arg_cong [where f = fst]] u2 cls] p2
  have second: "name (fst (loadPlugin plainHandler noBodies ''plugin.js''))
        (snd (loadPlugin plainHandler noBodies ''plugin.js''))
     = (Some (baseName ''plugin.js''), snd (loadPlugin plainHandler noBodies ''plugin.js''))"
    by blast
  from first second show ?thesis by (simp add: baseName_plugin_js)
qed

text \<open>
  The claim as stated fails on a plugin whose \<open>name\<close> is the empty string:
  \<open>stringValue\<close> tests the text with \<open>isNull\<close>, and the empty string is not null, so
  \<open>name()\<close> is the empty string and not the base name \<open>plugin\<close>.
\<close>

theorem name_empty_text_counterexample:
  "fst (name (fst (loadPlugin emptyNameHandler noBodies ''plugin.js''))
             (snd (loadPlugin emptyNameHandler noBodies ''plugin.js''))) = Some []
   \<and> fst (name (fst (loadPlugin emptyNameHandler noBodies ''plugin.js''))
             (snd (loadPlugin emptyNameHandler noBodies ''plugin.js'')))
       \<noteq> Some (baseName ''plugin.js'')"
  by (simp add: name_def stringValue_def value_of_plain processUncaughtException_None
      loadPlugin_eq emptyNameHandler_def baseName_plugin_js)

text \<open>
  For other base names the fallback is not the base name: the initialiser of \<open>m_id\<close>
  has rewritten \<open>m_baseName\<close>. The plugin of \<^verbatim>\<open>my plugin.js\<close> without a \<open>name\<close> is
  called \<open>my_plugin\<close>.
\<close>

lemma name_fallback_sanitized_run:
  "baseName ''my plugin.js'' = ''my plugin''
   \<and> fst (name (fst (loadPlugin plainHandler noBodies ''my plugin.js''))
             (snd (loadPlugin plainHandler noBodies ''my plugin.js''))) = Some ''my_plugin''"
  by (simp add: name_def stringValue_def value_of_plain processUncaughtException_None
      loadPlugin_eq plainHandler_def baseName_def fileName_def replaceRegExp_def inClass_def)

subsection \<open>C3: the factory symbol\<close>

text \<open>
  Claim C3, as amended: after evaluating a script that is not empty, the loader reads
  the fixed symbol \<open>copyq_script\<close> of the global object. With no exception pending
  after the evaluation: if the symbol is a function, it is called with no argument
  and the value it returns becomes the handler object; if the symbol is not a
  function, its own value becomes the handler object. If the symbol is absent, the
  handler object is invalid and the loader is not loaded, whatever the evaluation
  resulted in.
\<close>

theorem factory_symbol_lookup:
  "scriptFunctionName = ''copyq_script''
   \<and> (script \<noteq> [] \<and> eval scr script path (engine w) = (r, eng1) \<and> uncaught eng1 = None
       \<and> property (globalObject eng1) scriptFunctionName = Function t k
       \<and> body eng1 k (globalObject eng1) [] = Return v
      \<longrightarrow> m_obj (fst (ItemLoaderScript_new scr (Contents script) path w)) = v)
   \<and> (script \<noteq> [] \<and> eval scr script path (engine w) = (r, eng1) \<and> uncaught eng1 = None
       \<and> \<not> isFunction (property (globalObject eng1) scriptFunctionName)
      \<longrightarrow> m_obj (fst (ItemLoaderScript_new scr (Contents script) path w))
            = property (globalObject eng1) scriptFunctionName)
   \<and> (script \<noteq> [] \<and> eval scr script path (engine w) = (r, eng1)
       \<and> property (globalObject eng1) scriptFunctionName = Invalid
      \<longrightarrow> m_obj (fst (ItemLoaderScript_new scr (Contents script) path w)) = Invalid
          \<and> \<not> isLoaded (fst (ItemLoaderScript_new scr (Contents script) path w)))"
proof -
  have a: "script \<noteq> [] \<and> eval scr script path (engine w) = (r, eng1) \<and> uncaught eng1 = None
       \<and> property (globalObject eng1) scriptFunctionName = Function t k
       \<and> body eng1 k (globalObject eng1) [] = Return v
      \<longrightarrow> m_obj (fst (ItemLoaderScript_new scr (Contents script) path w)) = v"
    by (auto simp add: call_def intro!: new_not_pending [where ?eng2.0 = eng1])
  have b: "script \<noteq> [] \<and> eval scr script path (engine w) = (r, eng1) \<and> uncaught eng1 = None
       \<and> \<not> isFunction (property (globalObject eng1) scriptFunctionName)
      \<longrightarrow> m_obj (fst (ItemLoaderScript_new scr (Contents script) path w))
            = property (globalObject eng1) scriptFunctionName"
    by (auto intro!: new_not_pending [where ?eng2.0 = eng1])
  have c: "script \<noteq> [] \<and> eval scr script path (engine w) = (r, eng1)
       \<and> property (globalObject eng1) scriptFunctionName = Invalid
      \<longrightarrow> m_obj (fst (ItemLoaderScript_new scr (Contents script) path w)) = Invalid"
  proof (intro impI, elim conjE)
    assume s: "script \<noteq> []" and ev: "eval scr script path (engine w) = (r, eng1)"
      and ab: "property (globalObject eng1) scriptFunctionName = Invalid"
    have st: "(if isFunction (property (globalObject eng1) scriptFunctionName)
            then call (property (globalObject eng1) scriptFunctionName) Invalid [] eng1
            else (property (globalObject eng1) scriptFunctionName, eng1)) = (Invalid, eng1)"
      using ab by simp
    from new_cases [OF s ev st]
    show "m_obj (fst (ItemLoaderScript_new scr (Contents script) path w)) = Invalid"
      by simp
  qed
  from a b c show ?thesis by (simp add: scriptFunctionName_def isLoaded_def)
qed

text \<open>
  The script that defines the factory loads the object the factory returns; the
  script that defines no factory and results in an object loads nothing.
\<close>

theorem factory_symbol_lookup_witness:
  "m_obj (fst (ItemLoaderScript_new (pluginScriptable sampleHandler sampleBodies)
        (Contents ''script'') ''plugin.js'' startRuntime)) = sampleHandler
   \<and> m_obj (fst (ItemLoaderScript_new objectResultScriptable (Contents ''script'') ''plugin.js''
        startRuntime)) = Invalid"
proof -
  let ?eng = "\<lparr>globalObject = Object ''[object global]''
                           [(''copyq_script'', Function ''function copyq_script'' 0)],
                body = (\<lambda>k. if k = 0 then (\<lambda>this args. Return sampleHandler) else sampleBodies k),
                uncaught = None\<rparr>"
  have ev: "eval (pluginScriptable sampleHandler sampleBodies) ''script'' ''plugin.js''
              (engine startRuntime) = (Undefined, ?eng)"
    by (simp add: pluginScriptable_def)
  have p: "property (globalObject ?eng) scriptFunctionName = Function ''function copyq_script'' 0"
    by (simp add: scriptFunctionName_def)
  have b: "body ?eng 0 (globalObject ?eng) [] = Return sampleHandler"
    by simp
  have u: "uncaught ?eng = None"
    by simp
  have ev2: "eval objectResultScriptable ''script'' ''plugin.js'' (engine startRuntime)
               = (Object ''[object Object]'' [(''name'', Str ''X'')],
                  (engine startRuntime)\<lparr>uncaught := None\<rparr>)"
    by (simp add: objectResultScriptable_def)
  have p2: "property (globalObject ((engine startRuntime)\<lparr>uncaught := None\<rparr>)) scriptFunctionName
              = Invalid"
    by (simp add: startRuntime_def)
  have s: "''script'' \<noteq> []"
    by simp
  from factory_symbol_lookup
         [of "''script''" "pluginScriptable sampleHandler sampleBodies" "''plugin.js''"
             startRuntime Undefined ?eng "''function copyq_script''" 0 sampleHandler]
       s ev p b u
  have first: "m_obj (fst (ItemLoaderScript_new (pluginScriptable sampleHandler sampleBodies)
        (Contents ''script'') ''plugin.js'' startRuntime)) = sampleHandler"
    by blast
  from factory_symbol_lookup
         [of "''script''" objectResultScriptable "''plugin.js''" startRuntime
             "Object ''[object Object]'' [(''name'', Str ''X'')]"
             "(engine startRuntime)\<lparr>uncaught := None\<rparr>"]
       s ev2 p2
  have second: "m_obj (fst (ItemLoaderScript_new objectResultScriptable (Contents ''script'')
        ''plugin.js'' startRuntime)) = Invalid"
    by blast
  from first second show ?thesis by simp
qed

text \<open>
  The claim as stated fails on the script that defines no factory and whose evaluation
  results in an object: the result of \<open>eval\<close> is dropped, the handler object is not
  that object, and the loader is not loaded.
\<close>

theorem evaluation_result_not_handler_counterexample:
  "isObject (fst (eval objectResultScriptable ''script'' ''plugin.js'' (engine startRuntime)))
   \<and> property (globalObject (snd (eval objectResultScriptable ''script'' ''plugin.js''
         (engine startRuntime)))) scriptFunctionName = Invalid
   \<and> m_obj (fst (ItemLoaderScript_new objectResultScriptable (Contents ''script'') ''plugin.js''
        startRuntime))
       \<noteq> fst (eval objectResultScriptable ''script'' ''plugin.js'' (engine startRuntime))
   \<and> \<not> isLoaded (fst (ItemLoaderScript_new objectResultScriptable (Contents ''script'')
        ''plugin.js'' startRuntime))"
  by (simp add: ItemLoaderScript_new_def objectResultScriptable_def startRuntime_def
      scriptFunctionName_def processUncaughtException_None isLoaded_def Let_def)

subsection \<open>C4: resolving a metadata member\<close>




subsection \<open>C5: copying an item through the script\<close>

text \<open>
  Claim C5: \<open>ItemSaverScript::copyItem\<close> first calls the inner saver's \<open>copyItem\<close>,
  then calls the handler object's \<open>copyItem\<close> function on the marshalled result of
  the inner saver. When the function returns undefined or null, the saver returns
  exactly the inner saver's item data; when it returns another value, the saver
  returns the item data made from that value.
\<close>

theorem copyItem_applies_hook_to_inner_result:
  assumes "copyItem m_saver model itemData w = (base, w1)"
    and "property obj ''copyItem'' = Function t k"
    and "body (engine w1) k obj [fromDataMap scr base] = Return v"
  shows "copyItem (ItemSaverScript m_saver obj scr) model itemData w =
           (if isUndefined v \<or> isNull v then base else toDataMap scr v, w1)"
  using assms by (simp add: transformItemData_fn_Return)

text \<open>
  The sample plugin's \<open>copyItem\<close> returns undefined and the item data stays
  \<open>text/plain = hello\<close>; the \<open>copyItem\<close> that returns \<open>text/plain = changed\<close>
  replaces it.
\<close>

theorem copyItem_applies_hook_to_inner_result_witness:
  "copyItem (ItemSaverScript identitySaver sampleHandler (pluginScriptable sampleHandler sampleBodies))
      () [(''text/plain'', ''hello'')] (snd (loadPlugin sampleHandler sampleBodies ''plugin.js''))
     = ([(''text/plain'', ''hello'')], snd (loadPlugin sampleHandler sampleBodies ''plugin.js''))
   \<and> copyItem (ItemSaverScript identitySaver replacingHandler
                 (pluginScriptable replacingHandler sampleBodies))
      () [(''text/plain'', ''hello'')] (snd (loadPlugin replacingHandler sampleBodies ''plugin.js''))
     = ([(''text/plain'', ''changed'')], snd (loadPlugin replacingHandler sampleBodies ''plugin.js''))"
proof -
  let ?w = "snd (loadPlugin sampleHandler sampleBodies ''plugin.js'')"
  let ?scr = "pluginScriptable sampleHandler sampleBodies"
  let ?w' = "snd (loadPlugin replacingHandler sampleBodies ''plugin.js'')"
  let ?scr' = "pluginScriptable replacingHandler sampleBodies"
  have inner: "copyItem identitySaver () [(''text/plain'', ''hello'')] ?w
                 = ([(''text/plain'', ''hello'')], ?w)"
    by (simp add: identitySaver_def)
  have member: "property sampleHandler ''copyItem'' = Function ''function copyItem'' 3"
    by (simp add: sampleHandler_def)
  have returns: "body (engine ?w) 3 sampleHandler [fromDataMap ?scr [(''text/plain'', ''hello'')]]
                   = Return Undefined"
    by (simp add: loadPlugin_eq sampleBodies_def)
  have inner': "copyItem identitySaver () [(''text/plain'', ''hello'')] ?w'
                 = ([(''text/plain'', ''hello'')], ?w')"
    by (simp add: identitySaver_def)
  have member': "property replacingHandler ''copyItem'' = Function ''function copyItem'' 4"
    by (simp add: replacingHandler_def)
  have returns': "body (engine ?w') 4 replacingHandler
                     [fromDataMap ?scr' [(''text/plain'', ''hello'')]]
                   = Return (Object ''[object Object]'' [(''text/plain'', Str ''changed'')])"
    by (simp add: loadPlugin_eq sampleBodies_def)
  show ?thesis
    using copyItem_applies_hook_to_inner_result [OF inner member returns]
      copyItem_applies_hook_to_inner_result [OF inner' member' returns']
    by (simp add: pluginScriptable_def)
qed

subsection \<open>C6: wrapping a saver\<close>

text \<open>
  Claim C6: when neither \<open>copyItem\<close> nor \<open>transformItemData\<close> of the handler object
  is a function, \<open>transformSaver\<close> returns the saver it was given; when at least one
  of them is a function, it returns a new \<open>ItemSaverScript\<close> that holds the given
  saver, the handler object and the loader's \<open>Scriptable\<close>, and that is not the
  given saver.
\<close>

theorem transformSaver_wraps_when_hooked:
  "(\<not> isFunction (property (m_obj L) ''copyItem'')
      \<and> \<not> isFunction (property (m_obj L) ''transformItemData'')
      \<longrightarrow> transformSaver L saver = saver)
   \<and> (isFunction (property (m_obj L) ''copyItem'')
      \<or> isFunction (property (m_obj L) ''transformItemData'')
      \<longrightarrow> transformSaver L saver = ItemSaverScript saver (m_obj L) (m_scriptable L)
          \<and> transformSaver L saver \<noteq> saver)"
  by (simp add: transformSaver_def ItemSaverScript_neq)

text \<open>
  The plugin without members leaves the saver as it is; the sample plugin wraps it.
\<close>

theorem transformSaver_wraps_when_hooked_witness:
  "transformSaver (fst (loadPlugin plainHandler noBodies ''plugin.js'')) identitySaver = identitySaver
   \<and> transformSaver (fst (loadPlugin sampleHandler sampleBodies ''plugin.js'')) identitySaver
       = ItemSaverScript identitySaver sampleHandler (pluginScriptable sampleHandler sampleBodies)
   \<and> transformSaver (fst (loadPlugin sampleHandler sampleBodies ''plugin.js'')) identitySaver
       \<noteq> identitySaver"
  using transformSaver_wraps_when_hooked
          [of "fst (loadPlugin plainHandler noBodies ''plugin.js'')" identitySaver]
        transformSaver_wraps_when_hooked
          [of "fst (loadPlugin sampleHandler sampleBodies ''plugin.js'')" identitySaver]
  by (simp add: loadPlugin_eq plainHandler_def sampleHandler_def)

subsection \<open>C7: the identity of a loader\<close>

text \<open>
  Claim C7, as amended: for every script file path, the identity of the loader is the
  base name of the file with every character outside \<open>[A-Za-z0-9_]\<close> replaced by an
  underscore; the file name \<^verbatim>\<open>my plugin!.js\<close> gives the identity \<^verbatim>\<open>my_plugin_\<close>. The
  identity is a member that the constructor sets and no operation returns a changed
  loader.
\<close>

theorem loader_id_from_base_name:
  "id_loader (fst (ItemLoaderScript_new scr file path w))
     = map (\<lambda>c. if inClass c then c else CHR ''_'') (baseName path)
   \<and> id_loader (fst (ItemLoaderScript_new scr file ''my plugin!.js'' w)) = ''my_plugin_''"
  using replaceRegExp_my_plugin
  by (simp add: id_loader_def new_m_id) (simp add: replaceRegExp_def)

text \<open>
  The claim as stated fails on its own example: the base name of \<^verbatim>\<open>my plugin!.js\<close>
  is \<^verbatim>\<open>my plugin!\<close>, which has two characters outside the class, so the identity
  ends in one underscore and is not \<^verbatim>\<open>my_plugin__\<close>.
\<close>

theorem loader_id_my_plugin_counterexample:
  "id_loader (fst (loadPlugin plainHandler noBodies ''my plugin!.js'')) \<noteq> ''my_plugin__''"
  by (simp add: id_loader_def loadPlugin_def new_m_id replaceRegExp_my_plugin)

subsection \<open>C8: scripts that do not load\<close>

text \<open>
  Claim C8: the loader is not loaded when the script file cannot be opened or is
  empty; when the evaluation leaves an uncaught exception or the factory throws;
  and when the value of the factory symbol, or the value the factory returns, is not
  an object. \<open>createItemLoaderScript\<close> returns the loader when it is loaded, and
  returns no loader exactly when it is not loaded.
\<close>

theorem isLoaded_false_and_null_loader:
  "(file = OpenFailed err \<or> file = Contents []
      \<longrightarrow> \<not> isLoaded (fst (ItemLoaderScript_new scr file path w)))
   \<and> (file = Contents script \<and> script \<noteq> [] \<and> eval scr script path (engine w) = (r, eng1)
      \<and> (uncaught eng1 \<noteq> None
         \<or> (property (globalObject eng1) scriptFunctionName = Function t k
            \<and> body eng1 k (globalObject eng1) [] = Throw e))
      \<longrightarrow> \<not> isLoaded (fst (ItemLoaderScript_new scr file path w)))
   \<and> (file = Contents script \<and> script \<noteq> [] \<and> eval scr script path (engine w) = (r, eng1)
      \<and> (\<not> isObject (property (globalObject eng1) scriptFunctionName)
         \<or> (property (globalObject eng1) scriptFunctionName = Function t k
            \<and> body eng1 k (globalObject eng1) [] = Return v \<and> \<not> isObject v))
      \<longrightarrow> \<not> isLoaded (fst (ItemLoaderScript_new scr file path w)))
   \<and> fst (createItemLoaderScript scr file path w)
       = (if isLoaded (fst (ItemLoaderScript_new scr file path w))
          then Some (fst (ItemLoaderScript_new scr file path w)) else None)
   \<and> ((fst (createItemLoaderScript scr file path w) = None)
       = (\<not> isLoaded (fst (ItemLoaderScript_new scr file path w))))"
proof -
  have a: "file = OpenFailed err \<or> file = Contents []
      \<longrightarrow> \<not> isLoaded (fst (ItemLoaderScript_new scr file path w))"
    by (auto simp add: isLoaded_def new_OpenFailed new_empty)
  have b: "file = Contents script \<and> script \<noteq> [] \<and> eval scr script path (engine w) = (r, eng1)
      \<and> (uncaught eng1 \<noteq> None
         \<or> (property (globalObject eng1) scriptFunctionName = Function t k
            \<and> body eng1 k (globalObject eng1) [] = Throw e))
      \<longrightarrow> \<not> isLoaded (fst (ItemLoaderScript_new scr file path w))"
  proof (intro impI, elim conjE)
    assume f: "file = Contents script" and s: "script \<noteq> []"
      and ev: "eval scr script path (engine w) = (r, eng1)"
      and ex: "uncaught eng1 \<noteq> None
         \<or> (property (globalObject eng1) scriptFunctionName = Function t k
            \<and> body eng1 k (globalObject eng1) [] = Throw e)"
    have "uncaught (snd (if isFunction (property (globalObject eng1) scriptFunctionName)
            then call (property (globalObject eng1) scriptFunctionName) Invalid [] eng1
            else (property (globalObject eng1) scriptFunctionName, eng1))) \<noteq> None"
      using ex
      by (auto simp add: call_def split: QScriptValue.splits completion.splits)
    from new_pending [OF s ev this] f show "\<not> isLoaded (fst (ItemLoaderScript_new scr file path w))"
      by (simp add: isLoaded_def)
  qed
  have c: "file = Contents script \<and> script \<noteq> [] \<and> eval scr script path (engine w) = (r, eng1)
      \<and> (\<not> isObject (property (globalObject eng1) scriptFunctionName)
         \<or> (property (globalObject eng1) scriptFunctionName = Function t k
            \<and> body eng1 k (globalObject eng1) [] = Return v \<and> \<not> isObject v))
      \<longrightarrow> \<not> isLoaded (fst (ItemLoaderScript_new scr file path w))"
  proof (intro impI, elim conjE)
    assume f: "file = Contents script" and s: "script \<noteq> []"
      and ev: "eval scr script path (engine w) = (r, eng1)"
      and no: "\<not> isObject (property (globalObject eng1) scriptFunctionName)
         \<or> (property (globalObject eng1) scriptFunctionName = Function t k
            \<and> body eng1 k (globalObject eng1) [] = Return v \<and> \<not> isObject v)"
    obtain obj2 eng2 where st:
      "(if isFunction (property (globalObject eng1) scriptFunctionName)
            then call (property (globalObject eng1) scriptFunctionName) Invalid [] eng1
            else (property (globalObject eng1) scriptFunctionName, eng1)) = (obj2, eng2)"
      by (cases "(if isFunction (property (globalObject eng1) scriptFunctionName)
            then call (property (globalObject eng1) scriptFunctionName) Invalid [] eng1
            else (property (globalObject eng1) scriptFunctionName, eng1))") simp
    from no have "\<not> isObject obj2"
    proof
      assume n: "\<not> isObject (property (globalObject eng1) scriptFunctionName)"
      then have "\<not> isFunction (property (globalObject eng1) scriptFunctionName)"
        using isFunction_isObject by blast
      with st n show ?thesis by auto
    next
      assume "property (globalObject eng1) scriptFunctionName = Function t k
            \<and> body eng1 k (globalObject eng1) [] = Return v \<and> \<not> isObject v"
      with st show ?thesis by (simp add: call_def)
    qed
    with new_cases [OF s ev st] f show "\<not> isLoaded (fst (ItemLoaderScript_new scr file path w))"
      by (simp add: isLoaded_def)
  qed
  have d: "fst (createItemLoaderScript scr file path w)
       = (if isLoaded (fst (ItemLoaderScript_new scr file path w))
          then Some (fst (ItemLoaderScript_new scr file path w)) else None)"
    by (simp add: createItemLoaderScript_def split: prod.splits)
  from a b c d show ?thesis by simp
qed

text \<open>
  A script file that cannot be opened, a script whose evaluation throws and a script
  whose factory returns a string are not loaded, and no loader is created for the
  script whose evaluation throws.
\<close>

theorem isLoaded_false_and_null_loader_witness:
  "\<not> isLoaded (fst (ItemLoaderScript_new failingScriptable (OpenFailed ''No such file'')
        ''plugin.js'' startRuntime))
   \<and> \<not> isLoaded (fst (ItemLoaderScript_new failingScriptable (Contents ''script'')
        ''plugin.js'' startRuntime))
   \<and> fst (createItemLoaderScript failingScriptable (Contents ''script'') ''plugin.js'' startRuntime)
       = None
   \<and> \<not> isLoaded (fst (ItemLoaderScript_new (pluginScriptable (Str ''text'') noBodies)
        (Contents ''script'') ''plugin.js'' startRuntime))"
  using isLoaded_false_and_null_loader
          [of "OpenFailed ''No such file''" "''No such file''" failingScriptable "''plugin.js''"
              startRuntime]
        isLoaded_false_and_null_loader
          [of "Contents ''script''" _ failingScriptable "''plugin.js''" startRuntime "''script''"
              "Str ''SyntaxError''"
              "(engine startRuntime)\<lparr>uncaught := Some (Str ''SyntaxError'')\<rparr>"]
        isLoaded_false_and_null_loader
          [of "Contents ''script''" _ "pluginScriptable (Str ''text'') noBodies" "''plugin.js''"
              startRuntime "''script''" Undefined
              "\<lparr>globalObject = Object ''[object global]''
                           [(''copyq_script'', Function ''function copyq_script'' 0)],
                body = (\<lambda>k. if k = 0 then (\<lambda>this args. Return (Str ''text'')) else noBodies k),
                uncaught = None\<rparr>" "''function copyq_script''" 0 _ "Str ''text''"]
  by (simp add: failingScriptable_def pluginScriptable_def scriptFunctionName_def)

subsection \<open>C9: the text of a log event\<close>

text \<open>
  Claim C9 says that every line of a logged text carries the prefix of the plugin:
  each line feed in the text is followed by the prefix. \<open>log\<close> replaces each line
  feed by the prefix, so the line feed itself is lost. Run on the plugin of
  \<^verbatim>\<open>plugin.js\<close> with the two lines \<open>one\<close> and \<open>two\<close>: the logged text is the single
  line \<^verbatim>\<open>scripts::plugin: onescripts::plugin: two\<close>.
\<close>

theorem log_multiline_run:
  "hostLog (log (fst (loadPlugin plainHandler noBodies ''plugin.js''))
              (''one'' @ [CHR 0x0A] @ ''two'') LogNote startRuntime)
     = [(''scripts::plugin: onescripts::plugin: two'', LogNote)]"
  by (simp add: loadPlugin_eq baseName_plugin_js replaceRegExp_plugin logText_def replace_def
      startRuntime_def)

subsection \<open>C10: an empty message\<close>

text \<open>
  Claim C10: for every message code, the codes for errors, bad syntax and exceptions
  included, the slot \<open>sendMessage\<close> leaves the host log and the engine as they are
  when the message is empty.
\<close>

theorem sendMessage_empty_message:
  "sendMessage cs fromUtf8 L [] messageCode w = w"
  by (simp add: sendMessage_def)

end
